theory Spec2Isabelle
  imports Complex_Main
begin

section \<open>Strings and patterns\<close>

text \<open>
  A JavaScript string is modelled as a \<open>string\<close>: a list of 8-bit characters, read as the
  code units U+0000 to U+00FF. Within that range the white space of \<open>\s\<close> and of
  \<open>String.prototype.trim\<close> is TAB, LF, VT, FF, CR, SPACE and NO-BREAK SPACE.
\<close>

definition is_space :: "char \<Rightarrow> bool" where
  "is_space c = (of_char c \<in> {9, 10, 11, 12, 13, 32, 160 :: nat})"

definition is_digit :: "char \<Rightarrow> bool" where
  "is_digit c = (48 \<le> (of_char c :: nat) \<and> (of_char c :: nat) \<le> 57)"

definition is_upper :: "char \<Rightarrow> bool" where
  "is_upper c = (65 \<le> (of_char c :: nat) \<and> (of_char c :: nat) \<le> 90)"

definition is_lower :: "char \<Rightarrow> bool" where
  "is_lower c = (97 \<le> (of_char c :: nat) \<and> (of_char c :: nat) \<le> 122)"

definition is_char :: "char \<Rightarrow> char \<Rightarrow> bool" where
  "is_char a c = (c = a)"

text \<open>A digit of base 36 as \<open>toString(36)\<close> prints it, and an upper-case letter or digit.\<close>

definition base36 :: "char \<Rightarrow> bool" where
  "base36 c = (is_digit c \<or> is_lower c)"

definition upper_alnum :: "char \<Rightarrow> bool" where
  "upper_alnum c = (is_digit c \<or> is_upper c)"

text \<open>\<open>s.trim()\<close>, and the truthiness of a string (only the empty string is falsy).\<close>

definition trim :: "string \<Rightarrow> string" where
  "trim s = rev (dropWhile is_space (rev (dropWhile is_space s)))"

definition truthy :: "string \<Rightarrow> bool" where
  "truthy s = (s \<noteq> [])"

text \<open>\<open>s.replace(/\s/g, '')\<close>: every white-space character is removed.\<close>

definition remove_spaces :: "string \<Rightarrow> string" where
  "remove_spaces s = filter (\<lambda>c. \<not> is_space c) s"

text \<open>
  Every pattern of \<open>validationSchemas\<close> is anchored at both ends and is a sequence of
  character classes, each with a repetition count: \<open>Times m n\<close> is \<open>{m,n}\<close> (so a single
  character is \<open>Times 1 1\<close> and \<open>?\<close> is \<open>Times 0 1\<close>), \<open>AtLeast m\<close> is \<open>{m,}\<close> (so \<open>+\<close> is
  \<open>AtLeast 1\<close>). \<open>regexp_test\<close> is \<open>RegExp.prototype.test\<close> on such a pattern: it tries
  every admissible length for the first class and matches the rest against what is left,
  which is what a backtracking matcher decides.
\<close>

datatype quantifier = Times nat nat | AtLeast nat

type_synonym pattern = "((char \<Rightarrow> bool) \<times> quantifier) list"

fun at_least :: "quantifier \<Rightarrow> nat" where
  "at_least (Times m n) = m"
| "at_least (AtLeast m) = m"

fun at_most :: "quantifier \<Rightarrow> nat \<Rightarrow> nat" where
  "at_most (Times m n) len = min n len"
| "at_most (AtLeast m) len = len"

fun regexp_test :: "pattern \<Rightarrow> string \<Rightarrow> bool" where
  "regexp_test [] s = (s = [])"
| "regexp_test ((cls, q) # rest) s =
     list_ex (\<lambda>n. list_all cls (take n s) \<and> regexp_test rest (drop n s))
       [at_least q ..< Suc (at_most q (length s))]"

section \<open>The validation engine (src/lib/validation.ts)\<close>

record ValidationResult =
  isValid :: bool
  errors :: "string list"

subsection \<open>validationSchemas\<close>

text \<open>\<open>/^[A-Z]{3}$/\<close>\<close>

definition airportCode_pattern :: pattern where
  "airportCode_pattern = [(is_upper, Times 3 3)]"

definition airportCode_message :: string where
  "airportCode_message = ''Airport code must be a 3-letter IATA code (e.g., JFK, LAX)''"

text \<open>\<open>/^[A-Z]{2}\d{1,4}$/\<close>\<close>

definition flightNumber_pattern :: pattern where
  "flightNumber_pattern = [(is_upper, Times 2 2), (is_digit, Times 1 4)]"

definition flightNumber_message :: string where
  "flightNumber_message =
     ''Flight number must be airline code followed by 1-4 digits (e.g., AA123)''"

text \<open>\<open>/^\d{4}-\d{2}-\d{2}$/\<close>\<close>

definition date_pattern :: pattern where
  "date_pattern =
     [(is_digit, Times 4 4), (is_char CHR ''-'', Times 1 1), (is_digit, Times 2 2),
      (is_char CHR ''-'', Times 1 1), (is_digit, Times 2 2)]"

definition date_message :: string where
  "date_message = ''Date must be in YYYY-MM-DD format''"

text \<open>\<open>/^[^\s@]+@[^\s@]+\.[^\s@]+$/\<close>\<close>

definition not_space_at :: "char \<Rightarrow> bool" where
  "not_space_at c = (\<not> is_space c \<and> c \<noteq> CHR ''@'')"

definition email_pattern :: pattern where
  "email_pattern =
     [(not_space_at, AtLeast 1), (is_char CHR ''@'', Times 1 1), (not_space_at, AtLeast 1),
      (is_char CHR ''.'', Times 1 1), (not_space_at, AtLeast 1)]"

definition email_message :: string where
  "email_message = ''Please enter a valid email address''"

text \<open>\<open>/^\+?[\d\s\-()]{10,}$/\<close>\<close>

definition phone_char :: "char \<Rightarrow> bool" where
  "phone_char c = (is_digit c \<or> is_space c \<or> c = CHR ''-'' \<or> c = CHR ''('' \<or> c = CHR '')'')"

definition phone_pattern :: pattern where
  "phone_pattern = [(is_char CHR ''+'', Times 0 1), (phone_char, AtLeast 10)]"

definition phone_message :: string where
  "phone_message = ''Please enter a valid phone number''"

definition price_message :: string where
  "price_message = ''Price must be a positive number''"

subsection \<open>The platform's Date\<close>

text \<open>
  \<open>Date\<close> is the platform's, not the repository's. What the validators use of it is
  modelled after ECMAScript: a time value is a number of milliseconds since
  1970-01-01T00:00:00Z, \<open>None\<close> standing for the invalid date (NaN). The platform is a
  parameter: the clock (\<open>now\<close>), the offset of local time from UTC in minutes (\<open>tzOffset\<close>,
  for a zone without daylight-saving transitions), whether a date-only string whose day
  lies past the end of its month is accepted and rolled over (\<open>lenientDays\<close>: V8 does,
  other engines give NaN), and \<open>Date.parse\<close> on every string that is not in the date-only
  form (\<open>parseOther\<close>).
\<close>

record platform =
  now :: int
  tzOffset :: int
  lenientDays :: bool
  parseOther :: "string \<Rightarrow> int option"

definition msPerDay :: int where
  "msPerDay = 86400000"

definition is_leap :: "int \<Rightarrow> bool" where
  "is_leap y = (y mod 4 = 0 \<and> (y mod 100 \<noteq> 0 \<or> y mod 400 = 0))"

definition days_in_month :: "int \<Rightarrow> int \<Rightarrow> int" where
  "days_in_month y m =
     (if m = 2 then (if is_leap y then 29 else 28)
      else if m = 4 \<or> m = 6 \<or> m = 9 \<or> m = 11 then 30 else 31)"

text \<open>Days from 1970-01-01 to the civil date \<open>y-m-d\<close> (proleptic Gregorian calendar).\<close>

definition days_from_civil :: "int \<Rightarrow> int \<Rightarrow> int \<Rightarrow> int" where
  "days_from_civil y m d =
     (let y' = (if m \<le> 2 then y - 1 else y);
          era = y' div 400;
          yoe = y' - era * 400;
          doy = (153 * (if m > 2 then m - 3 else m + 9) + 2) div 5 + d - 1;
          doe = yoe * 365 + yoe div 4 - yoe div 100 + doy
      in era * 146097 + doe - 719468)"

text \<open>The civil date (year, month, day) of a day number: the inverse of the above.\<close>

definition civil_from_days :: "int \<Rightarrow> int \<times> int \<times> int" where
  "civil_from_days z0 =
     (let z = z0 + 719468;
          era = z div 146097;
          doe = z - era * 146097;
          yoe = (doe - doe div 1460 + doe div 36524 - doe div 146096) div 365;
          doy = doe - (365 * yoe + yoe div 4 - yoe div 100);
          mp = (5 * doy + 2) div 153;
          d = doy - (153 * mp + 2) div 5 + 1;
          m = (if mp < 10 then mp + 3 else mp - 9)
      in (if m \<le> 2 then yoe + era * 400 + 1 else yoe + era * 400, m, d))"

definition decimal :: "string \<Rightarrow> int" where
  "decimal s = foldl (\<lambda>a c. 10 * a + (int (of_char c) - 48)) 0 s"

text \<open>
  \<open>new Date(s).getTime()\<close>. A string in the date-only form \<open>YYYY-MM-DD\<close> denotes midnight
  UTC at the start of that day.
\<close>

definition Date_parse :: "platform \<Rightarrow> string \<Rightarrow> int option" where
  "Date_parse pf s =
     (if regexp_test date_pattern s then
        (let y = decimal (take 4 s); m = decimal (take 2 (drop 5 s)); d = decimal (drop 8 s)
         in if 1 \<le> m \<and> m \<le> 12 \<and> 1 \<le> d \<and>
               d \<le> (if lenientDays pf then 31 else days_in_month y m)
            then Some (days_from_civil y m d * msPerDay) else None)
      else parseOther pf s)"

text \<open>\<open>d.setHours(0, 0, 0, 0)\<close>: the start of the local day that holds the time \<open>t\<close>.\<close>

definition setHours0 :: "platform \<Rightarrow> int \<Rightarrow> int" where
  "setHours0 pf t =
     ((t + tzOffset pf * 60000) div msPerDay) * msPerDay - tzOffset pf * 60000"

text \<open>The local calendar date of the time \<open>t\<close>, and \<open>d.getFullYear()\<close>.\<close>

definition local_date :: "platform \<Rightarrow> int \<Rightarrow> int \<times> int \<times> int" where
  "local_date pf t = civil_from_days ((t + tzOffset pf * 60000) div msPerDay)"

definition getFullYear :: "platform \<Rightarrow> int \<Rightarrow> int" where
  "getFullYear pf t = fst (local_date pf t)"

subsection \<open>validators\<close>

text \<open>\<open>required\<close>: \<open>None\<close> is \<open>null\<close> or \<open>undefined\<close>.\<close>

definition required :: "string option \<Rightarrow> ValidationResult" where
  "required v =
     (let ok = (case v of None \<Rightarrow> False | Some s \<Rightarrow> trim s \<noteq> [])
      in \<lparr>isValid = ok, errors = (if ok then [] else [''This field is required''])\<rparr>)"

definition pattern :: "string \<Rightarrow> pattern \<Rightarrow> string \<Rightarrow> ValidationResult" where
  "pattern v p message =
     (let ok = regexp_test p v
      in \<lparr>isValid = ok, errors = (if ok then [] else [message])\<rparr>)"

text \<open>
  A JavaScript number, for \<open>range\<close>: NaN, the infinities, or a finite value. Both call
  sites pass a message, so the default message is not modelled.
\<close>

datatype number = NaN | Finite real | PosInfinity | NegInfinity

fun number_ge :: "number \<Rightarrow> real \<Rightarrow> bool" where
  "number_ge NaN b = False"
| "number_ge (Finite a) b = (a \<ge> b)"
| "number_ge PosInfinity b = True"
| "number_ge NegInfinity b = False"

fun number_le :: "number \<Rightarrow> real \<Rightarrow> bool" where
  "number_le NaN b = False"
| "number_le (Finite a) b = (a \<le> b)"
| "number_le PosInfinity b = False"
| "number_le NegInfinity b = True"

definition range :: "number \<Rightarrow> real option \<Rightarrow> real option \<Rightarrow> string \<Rightarrow> ValidationResult" where
  "range v lo hi message =
     (let ok = (v \<noteq> NaN \<and> (case lo of None \<Rightarrow> True | Some a \<Rightarrow> number_ge v a) \<and>
                (case hi of None \<Rightarrow> True | Some b \<Rightarrow> number_le v b))
      in \<lparr>isValid = ok, errors = (if ok then [] else [message])\<rparr>)"

definition date :: "platform \<Rightarrow> string \<Rightarrow> ValidationResult" where
  "date pf v =
     (let patternResult = pattern v date_pattern date_message
      in if \<not> isValid patternResult then patternResult
         else (let isValidDate = (Date_parse pf v \<noteq> None)
               in \<lparr>isValid = isValidDate,
                   errors = (if isValidDate then [] else [''Please enter a valid date''])\<rparr>))"

definition futureDate :: "platform \<Rightarrow> string \<Rightarrow> ValidationResult" where
  "futureDate pf v =
     (let dateResult = date pf v
      in if \<not> isValid dateResult then dateResult
         else (let today = setHours0 pf (now pf);
                   isFuture = (case Date_parse pf v of None \<Rightarrow> False
                               | Some inputDate \<Rightarrow> inputDate \<ge> today)
               in \<lparr>isValid = isFuture,
                   errors = (if isFuture then [] else [''Please select a future date''])\<rparr>))"

subsection \<open>airlinesValidators\<close>

text \<open>
  The argument of \<open>airlinesValidators.passenger\<close>: \<open>phone\<close> is optional, \<open>None\<close> when it
  is absent.
\<close>

record PassengerFields =
  in_firstName :: string
  in_lastName :: string
  in_email :: string
  in_phone :: "string option"
  in_dateOfBirth :: string

definition passenger :: "platform \<Rightarrow> PassengerFields \<Rightarrow> ValidationResult" where
  "passenger pf data =
     (let firstNameResult = required (Some (in_firstName data));
          lastNameResult = required (Some (in_lastName data));
          emailResult = pattern (in_email data) email_pattern email_message;
          phoneErrors =
            (case in_phone data of
               None \<Rightarrow> []
             | Some ph \<Rightarrow>
                 if truthy ph then errors (pattern ph phone_pattern phone_message) else []);
          dobResult = date pf (in_dateOfBirth data);
          ageErrors =
            (if isValid dobResult then
               (case Date_parse pf (in_dateOfBirth data) of
                  None \<Rightarrow> []
                | Some birthDate \<Rightarrow>
                    (let age = getFullYear pf (now pf) - getFullYear pf birthDate
                     in if age < 0 \<or> age > 120
                        then [''Please enter a valid date of birth''] else []))
             else []);
          errs =
            (if \<not> isValid firstNameResult then [''First name is required''] else []) @
            (if \<not> isValid lastNameResult then [''Last name is required''] else []) @
            errors emailResult @ phoneErrors @ errors dobResult @ ageErrors
      in \<lparr>isValid = (errs = []), errors = errs\<rparr>)"

record FlightEndpoint =
  airport :: string
  time :: string

record FlightData =
  flightNumber :: string
  departure :: FlightEndpoint
  arrival :: FlightEndpoint
  price :: number
  duration :: string

definition flight :: "platform \<Rightarrow> FlightData \<Rightarrow> ValidationResult" where
  "flight pf data =
     (let flightNumberResult =
            pattern (flightNumber data) flightNumber_pattern flightNumber_message;
          departureAirportResult =
            pattern (airport (departure data)) airportCode_pattern
              (''Departure airport: '' @ airportCode_message);
          arrivalAirportResult =
            pattern (airport (arrival data)) airportCode_pattern
              (''Arrival airport: '' @ airportCode_message);
          departureTime = Date_parse pf (time (departure data));
          arrivalTime = Date_parse pf (time (arrival data));
          orderErrors =
            (case departureTime of
               None \<Rightarrow> []
             | Some dep \<Rightarrow>
                 (case arrivalTime of
                    None \<Rightarrow> []
                  | Some arr \<Rightarrow>
                      if arr \<le> dep then [''Arrival time must be after departure time'']
                      else []));
          priceResult = range (price data) (Some 0) None price_message;
          errs =
            errors flightNumberResult @ errors departureAirportResult @
            errors arrivalAirportResult @
            (if departureTime = None then [''Invalid departure time format''] else []) @
            (if arrivalTime = None then [''Invalid arrival time format''] else []) @
            orderErrors @ errors priceResult
      in \<lparr>isValid = (errs = []), errors = errs\<rparr>)"

section \<open>The booking workflow (src/components/BookingFlow.tsx)\<close>

subsection \<open>Data (src/types/booking.ts, src/lib/flight-api.ts)\<close>

datatype BookingStep = FlightSelected | PassengerDetails | Payment | Confirmation

datatype PassengerType = Adult | Child | Infant

text \<open>
  \<open>title\<close> is declared as one of Mr, Mrs, Ms, Dr, but the form's select has an empty option
  and writes its string into the record, so it is a string here; \<open>email\<close> and \<open>phone\<close> are
  optional (\<open>None\<close> is \<open>undefined\<close>).
\<close>

record Passenger =
  pid :: string
  firstName :: string
  lastName :: string
  dateOfBirth :: string
  email :: "string option"
  phone :: "string option"
  title :: string
  ptype :: PassengerType

record BillingAddress =
  street :: string
  city :: string
  state :: string
  zipCode :: string
  country :: string

record PaymentDetails =
  cardNumber :: string
  expiryMonth :: string
  expiryYear :: string
  cvv :: string
  cardholderName :: string
  billingAddress :: BillingAddress

record ContactInfo =
  contact_email :: string
  contact_phone :: string

text \<open>
  \<open>BookingData\<close> declares three optional fields that the component never sets; the
  spread \<open>...bookingData\<close> carries them along.
\<close>

record BookingData =
  passengers :: "Passenger list"
  contactInfo :: ContactInfo
  bd_paymentDetails :: "PaymentDetails option"
  bd_specialRequests :: "string option"
  seatPreferences :: "string list option"

text \<open>Of a \<open>FlightOffer\<close>, the fields the component reads.\<close>

record LocationInfo =
  iataCode :: string
  at_time :: string

record FlightSegment =
  seg_departure :: LocationInfo
  seg_arrival :: LocationInfo
  carrierCode :: string
  seg_number :: string

record Itinerary =
  it_duration :: string
  segments :: "FlightSegment list"

record Price =
  total :: string
  base :: string

record FlightOffer =
  itineraries :: "Itinerary list"
  offer_price :: Price

datatype BookingStatus = confirmed | pending_status | failed

record FlightDetails =
  fd_flightNumber :: string
  departureDate :: string
  departureTime :: string
  arrivalTime :: string
  fd_from :: string
  fd_to :: string
  airline :: string

record BookingConfirmation =
  bookingReference :: string
  confirmationNumber :: string
  bookingDate :: string
  totalAmount :: string
  status :: BookingStatus
  conf_passengers :: "Passenger list"
  flightDetails :: FlightDetails

text \<open>
  The component's state: its six \<open>useState\<close> cells, and two things the model keeps
  beside them. \<open>pending\<close> holds the calls of \<open>processBooking\<close> that are waiting at their
  \<open>await\<close>, oldest first, each with the \<open>bookingData\<close> its closure captured; \<open>alerts\<close> is the
  log of the messages shown with \<open>alert\<close>.
\<close>

record BookingFlow =
  currentStep :: BookingStep
  bookingData :: BookingData
  paymentDetails :: PaymentDetails
  confirmation :: "BookingConfirmation option"
  isProcessing :: bool
  specialRequests :: string
  pending :: "BookingData list"
  alerts :: "string list"

subsection \<open>The initial state\<close>

text \<open>The decimal numeral of an index, as the template literal prints it.\<close>

definition digit_char :: "nat \<Rightarrow> char" where
  "digit_char d = char_of (48 + d)"

fun string_of_nat :: "nat \<Rightarrow> string" where
  "string_of_nat n =
     (if n < 10 then [digit_char n] else string_of_nat (n div 10) @ [digit_char (n mod 10)])"

declare string_of_nat.simps [simp del]

definition emptyPassenger :: "nat \<Rightarrow> Passenger" where
  "emptyPassenger index =
     \<lparr>pid = ''passenger-'' @ string_of_nat index, firstName = [], lastName = [],
      dateOfBirth = [], email = (if index = 0 then Some [] else None),
      phone = (if index = 0 then Some [] else None), title = ''Mr'', ptype = Adult\<rparr>"

definition emptyPayment :: PaymentDetails where
  "emptyPayment =
     \<lparr>cardNumber = [], expiryMonth = [], expiryYear = [], cvv = [], cardholderName = [],
      billingAddress = \<lparr>street = [], city = [], state = [], zipCode = [], country = []\<rparr>\<rparr>"

definition initialState :: "nat \<Rightarrow> BookingFlow" where
  "initialState passengerCount =
     \<lparr>currentStep = FlightSelected,
      bookingData =
        \<lparr>passengers = map emptyPassenger [0 ..< passengerCount],
         contactInfo = \<lparr>contact_email = [], contact_phone = []\<rparr>,
         bd_paymentDetails = None, bd_specialRequests = None, seatPreferences = None\<rparr>,
      paymentDetails = emptyPayment, confirmation = None, isProcessing = False,
      specialRequests = [], pending = [], alerts = []\<rparr>"

subsection \<open>The handlers\<close>

text \<open>
  \<open>handlePassengerUpdate\<close> is called by the passenger forms, which are made by mapping
  over \<open>bookingData.passengers\<close>: \<open>index\<close> is below the length of the sequence. (Past the
  end JavaScript would grow the array and leave holes; that is outside this model, and
  every statement about this operation is made for an index within the sequence.)
  \<open>passenger.email || ''\<close> is the empty string when the field is absent.
\<close>

definition or_empty :: "string option \<Rightarrow> string" where
  "or_empty v = (case v of None \<Rightarrow> [] | Some s \<Rightarrow> s)"

definition handlePassengerUpdate :: "nat \<Rightarrow> Passenger \<Rightarrow> BookingData \<Rightarrow> BookingData" where
  "handlePassengerUpdate index p bd =
     (let updatedPassengers = (passengers bd)[index := p]
      in if index = 0
         then bd\<lparr>passengers := updatedPassengers,
                 contactInfo := \<lparr>contact_email = or_empty (email p),
                                  contact_phone = or_empty (phone p)\<rparr>\<rparr>
         else bd\<lparr>passengers := updatedPassengers\<rparr>)"

definition validatePassengerDetails :: "BookingData \<Rightarrow> bool" where
  "validatePassengerDetails bd =
     (list_all (\<lambda>p. truthy (trim (firstName p)) \<and> truthy (trim (lastName p)) \<and>
                     truthy (dateOfBirth p) \<and> truthy (title p)) (passengers bd) \<and>
      truthy (contact_email (contactInfo bd)) \<and> truthy (contact_phone (contactInfo bd)))"

definition validatePaymentDetails :: "PaymentDetails \<Rightarrow> bool" where
  "validatePaymentDetails pd =
     (length (remove_spaces (cardNumber pd)) \<ge> 13 \<and>
      truthy (expiryMonth pd) \<and>
      truthy (expiryYear pd) \<and>
      length (cvv pd) \<ge> 3 \<and>
      truthy (trim (cardholderName pd)) \<and>
      truthy (trim (street (billingAddress pd))) \<and>
      truthy (trim (city (billingAddress pd))) \<and>
      truthy (trim (state (billingAddress pd))) \<and>
      truthy (trim (zipCode (billingAddress pd))) \<and>
      truthy (country (billingAddress pd)))"

text \<open>
  \<open>processBooking\<close> runs in two parts. Up to its \<open>await\<close> it sets the processing flag and
  suspends; the model records the suspended call with the \<open>bookingData\<close> it captured. When
  the two-second timer resolves the rest runs: the body of the \<open>try\<close>, which throws a
  TypeError when the offer has no itinerary or its first itinerary has no segment, then
  \<open>catch\<close> and \<open>finally\<close>. What the platform hands to that run is a parameter: the strings
  of the two calls of \<open>Math.random().toString(36)\<close>, the string of
  \<open>new Date().toISOString()\<close>, and \<open>toLocaleTimeString\<close> as \<open>formatTime\<close> calls it.
\<close>

record effects =
  random1 :: string
  random2 :: string
  isoNow :: string
  localeTime :: "string \<Rightarrow> string"

datatype js_error = TypeError

text \<open>
  \<open>s.substr(start, len)\<close> for \<open>start\<close> and \<open>len\<close> that are not negative, \<open>s.split('T')[0]\<close>,
  and \<open>s.toUpperCase()\<close> on the characters that \<open>toString(36)\<close> prints (digits, lower-case
  ASCII letters and the point).
\<close>

definition substr :: "nat \<Rightarrow> nat \<Rightarrow> string \<Rightarrow> string" where
  "substr start len s = take len (drop start s)"

definition before_T :: "string \<Rightarrow> string" where
  "before_T s = takeWhile (\<lambda>c. c \<noteq> CHR ''T'') s"

definition toUpperCase :: "string \<Rightarrow> string" where
  "toUpperCase s = map (\<lambda>c. if is_lower c then char_of (of_char c - (32 :: nat)) else c) s"

definition formatTime :: "effects \<Rightarrow> string \<Rightarrow> string" where
  "formatTime fx dateTimeString = localeTime fx dateTimeString"

definition processBooking_try ::
  "FlightOffer \<Rightarrow> effects \<Rightarrow> BookingData \<Rightarrow> js_error + BookingConfirmation" where
  "processBooking_try selectedFlight fx bd =
     (case itineraries selectedFlight of
        [] \<Rightarrow> Inl TypeError
      | itinerary # _ \<Rightarrow>
          (case segments itinerary of
             [] \<Rightarrow> Inl TypeError
           | segment # _ \<Rightarrow>
               Inr \<lparr>bookingReference = ''AD'' @ toUpperCase (substr 2 8 (random1 fx)),
                    confirmationNumber =
                      carrierCode segment @ toUpperCase (substr 2 6 (random2 fx)),
                    bookingDate = isoNow fx,
                    totalAmount = total (offer_price selectedFlight),
                    status = confirmed,
                    conf_passengers = passengers bd,
                    flightDetails =
                      \<lparr>fd_flightNumber = carrierCode segment @ seg_number segment,
                       departureDate = before_T (at_time (seg_departure segment)),
                       departureTime = formatTime fx (at_time (seg_departure segment)),
                       arrivalTime = formatTime fx (at_time (seg_arrival segment)),
                       fd_from = iataCode (seg_departure segment),
                       fd_to = iataCode (seg_arrival segment),
                       airline = carrierCode segment @ '' Airlines''\<rparr>\<rparr>))"

definition processBooking_start :: "BookingFlow \<Rightarrow> BookingFlow" where
  "processBooking_start s = s\<lparr>isProcessing := True, pending := pending s @ [bookingData s]\<rparr>"

definition processBooking_resume :: "FlightOffer \<Rightarrow> effects \<Rightarrow> BookingFlow \<Rightarrow> BookingFlow" where
  "processBooking_resume selectedFlight fx s =
     (case pending s of
        [] \<Rightarrow> s
      | captured # others \<Rightarrow>
          (case processBooking_try selectedFlight fx captured of
             Inr bookingConfirmation \<Rightarrow>
               s\<lparr>pending := others, confirmation := Some bookingConfirmation,
                 currentStep := Confirmation, isProcessing := False\<rparr>
           | Inl bookingError \<Rightarrow>
               s\<lparr>pending := others,
                 alerts := alerts s @ [''Booking failed. Please try again.''],
                 isProcessing := False\<rparr>))"

definition handleStepNavigation :: "BookingStep \<Rightarrow> BookingFlow \<Rightarrow> BookingFlow" where
  "handleStepNavigation nextStep s =
     (if nextStep = PassengerDetails \<and> currentStep s = FlightSelected then
        s\<lparr>currentStep := PassengerDetails\<rparr>
      else if nextStep = Payment \<and> currentStep s = PassengerDetails then
        (if validatePassengerDetails (bookingData s) then s\<lparr>currentStep := Payment\<rparr>
         else s\<lparr>alerts := alerts s @ [''Please fill in all required passenger details'']\<rparr>)
      else if nextStep = Confirmation \<and> currentStep s = Payment then
        (if validatePaymentDetails (paymentDetails s) then processBooking_start s
         else s\<lparr>alerts := alerts s @ [''Please fill in all required payment details'']\<rparr>)
      else s)"

definition handleBack :: "BookingFlow \<Rightarrow> BookingFlow" where
  "handleBack s =
     (if currentStep s = PassengerDetails then s\<lparr>currentStep := FlightSelected\<rparr>
      else if currentStep s = Payment then s\<lparr>currentStep := PassengerDetails\<rparr>
      else s)"

text \<open>\<open>setBookingData\<close> with the result of \<open>handlePassengerUpdate\<close>.\<close>

definition onPassengerUpdate :: "nat \<Rightarrow> Passenger \<Rightarrow> BookingFlow \<Rightarrow> BookingFlow" where
  "onPassengerUpdate index p s = s\<lparr>bookingData := handlePassengerUpdate index p (bookingData s)\<rparr>"

subsection \<open>The events of the rendered component\<close>

text \<open>
  The handlers are closures of the component: they run only when a control that the
  current render shows, and does not disable, fires. Each step shows its own controls.
  The button to the payment step carries \<open>disabled={!validatePassengerDetails()}\<close>, the
  button that completes the booking
  \<open>disabled={!validatePaymentDetails() || isProcessing}\<close>; a disabled button fires
  nothing. The back buttons carry no \<open>disabled\<close>. The timer of a suspended
  \<open>processBooking\<close> is the one event that no control fires.
\<close>

datatype event =
    ContinueToPassengerDetails_click
  | ContinueToPayment_click
  | CompleteBooking_click
  | Back_click
  | PassengerForm_onUpdate nat Passenger
  | PaymentForm_onUpdate PaymentDetails
  | SpecialRequests_onChange string
  | Timeout_resolves effects

definition continueToPayment_disabled :: "BookingFlow \<Rightarrow> bool" where
  "continueToPayment_disabled s = (\<not> validatePassengerDetails (bookingData s))"

definition completeBooking_disabled :: "BookingFlow \<Rightarrow> bool" where
  "completeBooking_disabled s = (\<not> validatePaymentDetails (paymentDetails s) \<or> isProcessing s)"

fun dispatch :: "FlightOffer \<Rightarrow> BookingFlow \<Rightarrow> event \<Rightarrow> BookingFlow" where
  "dispatch offer s ContinueToPassengerDetails_click =
     (if currentStep s = FlightSelected then handleStepNavigation PassengerDetails s else s)"
| "dispatch offer s ContinueToPayment_click =
     (if currentStep s = PassengerDetails \<and> \<not> continueToPayment_disabled s
      then handleStepNavigation Payment s else s)"
| "dispatch offer s CompleteBooking_click =
     (if currentStep s = Payment \<and> \<not> completeBooking_disabled s
      then handleStepNavigation Confirmation s else s)"
| "dispatch offer s Back_click =
     (if currentStep s = PassengerDetails \<or> currentStep s = Payment then handleBack s else s)"
| "dispatch offer s (PassengerForm_onUpdate index p) =
     (if currentStep s = PassengerDetails \<and> index < length (passengers (bookingData s))
      then onPassengerUpdate index p s else s)"
| "dispatch offer s (PaymentForm_onUpdate pd) =
     (if currentStep s = Payment then s\<lparr>paymentDetails := pd\<rparr> else s)"
| "dispatch offer s (SpecialRequests_onChange txt) =
     (if currentStep s = PassengerDetails then s\<lparr>specialRequests := txt\<rparr> else s)"
| "dispatch offer s (Timeout_resolves fx) = processBooking_resume offer fx s"

definition run :: "FlightOffer \<Rightarrow> BookingFlow \<Rightarrow> event list \<Rightarrow> BookingFlow" where
  "run offer s es = foldl (dispatch offer) s es"

fun position :: "BookingStep \<Rightarrow> nat" where
  "position FlightSelected = 0"
| "position PassengerDetails = 1"
| "position Payment = 2"
| "position Confirmation = 3"

section \<open>The specification's wording\<close>

text \<open>
  The definitions of this section are not taken from the source. They write down what
  the specification says, to be compared with the code.
\<close>

text \<open>A string that holds a character other than white space, and a string that is not empty.\<close>

definition has_non_space :: "string \<Rightarrow> bool" where
  "has_non_space s = list_ex (\<lambda>c. \<not> is_space c) s"

definition not_empty :: "string \<Rightarrow> bool" where
  "not_empty s = (s \<noteq> [])"

text \<open>
  The payment guard as the specification words it, with one meaning of ``non-blank'' for
  all the fields it names.
\<close>

definition claimed_payment_guard :: "(string \<Rightarrow> bool) \<Rightarrow> PaymentDetails \<Rightarrow> bool" where
  "claimed_payment_guard non_blank pd =
     (length (remove_spaces (cardNumber pd)) \<ge> 13 \<and>
      non_blank (expiryMonth pd) \<and> non_blank (expiryYear pd) \<and>
      length (cvv pd) \<ge> 3 \<and>
      non_blank (cardholderName pd) \<and>
      non_blank (street (billingAddress pd)) \<and> non_blank (city (billingAddress pd)) \<and>
      non_blank (state (billingAddress pd)) \<and> non_blank (zipCode (billingAddress pd)) \<and>
      non_blank (country (billingAddress pd)))"

text \<open>The flight-number pattern of the specification: \<open>/^[A-Z]{2,3}\d{1,4}$/\<close>.\<close>

definition claimed_flightNumber_pattern :: pattern where
  "claimed_flightNumber_pattern = [(is_upper, Times 2 3), (is_digit, Times 1 4)]"

text \<open>
  The guard of the step from the passenger details to the payment as the specification
  words it: every passenger passes \<open>airlinesValidators.passenger\<close>, and the contact email
  and phone are not blank. A passenger record is handed to the validator as it is; an
  absent email reads as the string \<open>undefined\<close> in \<open>RegExp.prototype.test\<close>.
\<close>

definition fields_of :: "Passenger \<Rightarrow> PassengerFields" where
  "fields_of p =
     \<lparr>in_firstName = firstName p, in_lastName = lastName p,
      in_email = (case email p of None \<Rightarrow> ''undefined'' | Some e \<Rightarrow> e),
      in_phone = phone p, in_dateOfBirth = dateOfBirth p\<rparr>"

definition claimed_passenger_guard :: "platform \<Rightarrow> BookingData \<Rightarrow> bool" where
  "claimed_passenger_guard pf bd =
     (list_all (\<lambda>p. isValid (passenger pf (fields_of p))) (passengers bd) \<and>
      has_non_space (contact_email (contactInfo bd)) \<and>
      has_non_space (contact_phone (contactInfo bd)))"

section \<open>Concrete inputs\<close>

text \<open>
  A platform whose local time is five hours behind UTC, at local noon of 2025-06-15
  (17:00 UTC).
\<close>

definition west_of_utc :: platform where
  "west_of_utc =
     \<lparr>now = days_from_civil 2025 6 15 * msPerDay + 17 * 3600000, tzOffset = - 300,
      lenientDays = False, parseOther = (\<lambda>s. None)\<rparr>"

definition john :: Passenger where
  "john =
     \<lparr>pid = ''passenger-0'', firstName = ''John'', lastName = ''Doe'',
      dateOfBirth = ''1990-01-01'', email = Some ''john@x.com'',
      phone = Some ''+1-555-123-4567'', title = ''Mr'', ptype = Adult\<rparr>"

definition visa :: PaymentDetails where
  "visa =
     \<lparr>cardNumber = ''4111 1111 1111 1111'', expiryMonth = ''12'', expiryYear = ''2030'',
      cvv = ''123'', cardholderName = ''John Doe'',
      billingAddress =
        \<lparr>street = ''1 Main St'', city = ''NYC'', state = ''NY'', zipCode = ''10001'',
         country = ''US''\<rparr>\<rparr>"

definition aa123 :: FlightOffer where
  "aa123 =
     \<lparr>itineraries =
        [\<lparr>it_duration = ''PT4H'',
          segments =
            [\<lparr>seg_departure = \<lparr>iataCode = ''JFK'', at_time = ''2025-01-15T10:00:00Z''\<rparr>,
              seg_arrival = \<lparr>iataCode = ''LAX'', at_time = ''2025-01-15T14:00:00Z''\<rparr>,
              carrierCode = ''AA'', seg_number = ''123''\<rparr>]\<rparr>],
      offer_price = \<lparr>total = ''450.00'', base = ''400.00''\<rparr>\<rparr>"

definition no_itinerary :: FlightOffer where
  "no_itinerary = \<lparr>itineraries = [], offer_price = \<lparr>total = ''450.00'', base = ''400.00''\<rparr>\<rparr>"

text \<open>
  One run of the platform: two random strings as \<open>toString(36)\<close> prints them, a
  timestamp, and a clock-time formatter that reads the hour and minute off an ISO string.
\<close>

definition one_run :: effects where
  "one_run =
     \<lparr>random1 = ''0.4fzyo82mvyr'', random2 = ''0.k3x9q1z7abc'',
      isoNow = ''2025-01-01T12:00:00.000Z'', localeTime = (\<lambda>s. take 5 (drop 11 s))\<rparr>"

text \<open>
  States the component reaches for one passenger: the passenger step with the form filled
  in, the payment step with the card filled in, and the payment step after the booking
  was sent and while it is processed.
\<close>

definition details_filled :: BookingFlow where
  "details_filled =
     run aa123 (initialState 1) [ContinueToPassengerDetails_click, PassengerForm_onUpdate 0 john]"

definition payment_filled :: BookingFlow where
  "payment_filled = run aa123 details_filled [ContinueToPayment_click, PaymentForm_onUpdate visa]"

definition processing :: BookingFlow where
  "processing = run aa123 payment_filled [CompleteBooking_click]"

text \<open>
  The passenger step with a form whose email is not an address, a flight record whose
  number has a three-letter airline code, and the state after the booking was sent and
  the back button was pressed twice while it was processed.
\<close>

definition bad_email :: BookingFlow where
  "bad_email =
     run aa123 (initialState 1)
       [ContinueToPassengerDetails_click,
        PassengerForm_onUpdate 0 (john\<lparr>email := Some ''not-an-email''\<rparr>)]"

definition aal123 :: FlightData where
  "aal123 =
     \<lparr>flightNumber = ''AAL123'',
      departure = \<lparr>airport = ''JFK'', time = ''2025-01-15''\<rparr>,
      arrival = \<lparr>airport = ''LAX'', time = ''2025-01-16''\<rparr>,
      price = Finite 450, duration = ''4h''\<rparr>"

definition walked_back :: BookingFlow where
  "walked_back = run aa123 processing [Back_click, Back_click]"

section \<open>An invariant of the component\<close>

text \<open>
  The processing flag is set exactly while a call of \<open>processBooking\<close> is suspended, and
  at most one call is.
\<close>

definition consistent :: "BookingFlow \<Rightarrow> bool" where
  "consistent s = ((isProcessing s \<longleftrightarrow> pending s \<noteq> []) \<and> length (pending s) \<le> 1)"

section \<open>Facts about strings\<close>

text \<open>After \<open>trim\<close> a string is truthy exactly when it holds a character that is not white space.\<close>

lemma trim_truthy: "truthy (trim s) = has_non_space s"
proof -
  have "(\<exists>x\<in>set (dropWhile is_space s). \<not> is_space x) = (\<exists>x\<in>set s. \<not> is_space x)"
  proof
    assume "\<exists>x\<in>set (dropWhile is_space s). \<not> is_space x"
    then show "\<exists>x\<in>set s. \<not> is_space x" by (auto dest: set_dropWhileD)
  next
    assume "\<exists>x\<in>set s. \<not> is_space x"
    then have ne: "dropWhile is_space s \<noteq> []" by simp
    then have "\<not> is_space (hd (dropWhile is_space s))" by (rule hd_dropWhile)
    with ne show "\<exists>x\<in>set (dropWhile is_space s). \<not> is_space x"
      using hd_in_set by blast
  qed
  then show ?thesis
    by (simp add: truthy_def trim_def has_non_space_def list_ex_iff)
qed

section \<open>The passenger-update operation\<close>

text \<open>
  C9. For an index within the passenger sequence, updating a passenger twice with the
  same record gives the aggregate that updating it once gives: the passengers and the
  contact information, and with them the whole state of the component.
\<close>

theorem passenger_update_idempotent:
  assumes "index < length (passengers (bookingData s))"
  shows "handlePassengerUpdate index p (handlePassengerUpdate index p (bookingData s)) =
           handlePassengerUpdate index p (bookingData s) \<and>
         onPassengerUpdate index p (onPassengerUpdate index p s) = onPassengerUpdate index p s"
  by (simp add: handlePassengerUpdate_def onPassengerUpdate_def Let_def)

theorem passenger_update_idempotent_witness:
  "0 < length (passengers (bookingData (initialState 2))) \<and>
   passengers (bookingData (onPassengerUpdate 0 john (initialState 2))) ! 0 = john \<and>
   onPassengerUpdate 0 john (onPassengerUpdate 0 john (initialState 2)) =
     onPassengerUpdate 0 john (initialState 2)"
proof -
  have h: "0 < length (passengers (bookingData (initialState 2)))"
    by (simp add: initialState_def)
  have "passengers (bookingData (onPassengerUpdate 0 john (initialState 2))) ! 0 = john"
    using h by (simp add: onPassengerUpdate_def handlePassengerUpdate_def)
  with h passenger_update_idempotent [OF h, of john] show ?thesis by simp
qed

text \<open>
  C10. For an index within the passenger sequence the update puts the new record at that
  index and leaves the length of the sequence, every other passenger, the payment details
  and the special-requests text (the component's, and the optional fields of that name in
  the booking data) as they were. At an index of 1 or more the contact
  information is unchanged too; at index 0 it becomes the email and phone of the new
  record.
\<close>

theorem passenger_update_frame:
  assumes "index < length (passengers (bookingData s))"
  shows "paymentDetails (onPassengerUpdate index p s) = paymentDetails s \<and>
         specialRequests (onPassengerUpdate index p s) = specialRequests s \<and>
         currentStep (onPassengerUpdate index p s) = currentStep s \<and>
         bd_paymentDetails (bookingData (onPassengerUpdate index p s)) =
           bd_paymentDetails (bookingData s) \<and>
         bd_specialRequests (bookingData (onPassengerUpdate index p s)) =
           bd_specialRequests (bookingData s) \<and>
         length (passengers (bookingData (onPassengerUpdate index p s))) =
           length (passengers (bookingData s)) \<and>
         passengers (bookingData (onPassengerUpdate index p s)) ! index = p \<and>
         (\<forall>j < length (passengers (bookingData s)). j \<noteq> index \<longrightarrow>
            passengers (bookingData (onPassengerUpdate index p s)) ! j =
              passengers (bookingData s) ! j) \<and>
         (1 \<le> index \<longrightarrow>
            contactInfo (bookingData (onPassengerUpdate index p s)) =
              contactInfo (bookingData s)) \<and>
         (index = 0 \<longrightarrow>
            contactInfo (bookingData (onPassengerUpdate index p s)) =
              \<lparr>contact_email = or_empty (email p), contact_phone = or_empty (phone p)\<rparr>)"
  using assms by (auto simp add: handlePassengerUpdate_def onPassengerUpdate_def Let_def)

theorem passenger_update_frame_witness:
  "1 < length (passengers (bookingData (initialState 2))) \<and>
   passengers (bookingData (onPassengerUpdate 1 john (initialState 2))) ! 1 = john \<and>
   passengers (bookingData (onPassengerUpdate 1 john (initialState 2))) ! 0 =
     passengers (bookingData (initialState 2)) ! 0 \<and>
   contactInfo (bookingData (onPassengerUpdate 1 john (initialState 2))) =
     contactInfo (bookingData (initialState 2)) \<and>
   paymentDetails (onPassengerUpdate 1 john (initialState 2)) = paymentDetails (initialState 2)"
proof -
  have h: "1 < length (passengers (bookingData (initialState 2)))"
    by (simp add: initialState_def)
  have z: "0 < length (passengers (bookingData (initialState 2)))"
    by (simp add: initialState_def)
  from passenger_update_frame [OF h, of john] h z show ?thesis by simp
qed

section \<open>The payment guard\<close>

text \<open>
  C3, as amended. The payment guard holds exactly when the card number without its white
  space has 13 characters or more, the expiry month, the expiry year and the country are
  not empty, the CVV has 3 characters or more, and the cardholder name, street, city,
  state and zip code each hold a character that is not white space. The expiry month,
  the expiry year and the country are not trimmed: a value of white space alone passes.
\<close>

theorem payment_guard_characterised:
  "validatePaymentDetails pd \<longleftrightarrow>
     13 \<le> length (remove_spaces (cardNumber pd)) \<and>
     expiryMonth pd \<noteq> [] \<and> expiryYear pd \<noteq> [] \<and>
     3 \<le> length (cvv pd) \<and>
     has_non_space (cardholderName pd) \<and>
     has_non_space (street (billingAddress pd)) \<and>
     has_non_space (city (billingAddress pd)) \<and>
     has_non_space (state (billingAddress pd)) \<and>
     has_non_space (zipCode (billingAddress pd)) \<and>
     country (billingAddress pd) \<noteq> []"
  by (simp add: validatePaymentDetails_def trim_truthy) (simp add: truthy_def)

text \<open>
  The guard as the specification words it fails under either meaning of ``non-blank''.
  Read as ``not blank after trimming'', it rejects an expiry month of one space, which
  the code accepts. Read as ``not empty'', it accepts a cardholder name of one space,
  which the code rejects.
\<close>

theorem payment_guard_counterexample:
  "validatePaymentDetails (visa\<lparr>expiryMonth := '' ''\<rparr>) \<and>
   \<not> claimed_payment_guard has_non_space (visa\<lparr>expiryMonth := '' ''\<rparr>) \<and>
   \<not> validatePaymentDetails (visa\<lparr>cardholderName := '' ''\<rparr>) \<and>
   claimed_payment_guard not_empty (visa\<lparr>cardholderName := '' ''\<rparr>)"
  by code_simp

section \<open>Submission\<close>

lemma processing_facts:
  "currentStep processing = Payment \<and> isProcessing processing \<and>
   validatePaymentDetails (paymentDetails processing) \<and>
   pending processing = [bookingData payment_filled]"
  by code_simp

text \<open>
  C2. While the processing flag is set the button that completes the booking is
  disabled, so a click on it is denied: the state after the click is the state before
  it. The step, the booking data, the payment details and the special requests are
  unchanged, and no call of \<open>processBooking\<close> is added to the pending ones.
\<close>

theorem no_double_submission:
  assumes "isProcessing s"
  shows "dispatch offer s CompleteBooking_click = s"
  using assms by (simp add: completeBooking_disabled_def)

theorem no_double_submission_witness:
  "isProcessing processing \<and> currentStep processing = Payment \<and>
   validatePaymentDetails (paymentDetails processing) \<and>
   dispatch aa123 processing CompleteBooking_click = processing"
proof -
  have h: "isProcessing processing" using processing_facts by simp
  from no_double_submission [OF h, of aa123] processing_facts show ?thesis by simp
qed

text \<open>
  What the button's \<open>disabled\<close> keeps away, the handler alone would do: it does not read
  the flag, and called in the processing state it suspends a second \<open>processBooking\<close>.
\<close>

lemma handler_ignores_processing_flag:
  "isProcessing processing \<and>
   pending (handleStepNavigation Confirmation processing) =
     [bookingData payment_filled, bookingData payment_filled]"
  by code_simp

text \<open>Every event keeps the invariant, so every state the component reaches has it.\<close>

lemma dispatch_consistent: "consistent s \<Longrightarrow> consistent (dispatch offer s e)"
  by (cases e)
    (auto simp add: consistent_def handleStepNavigation_def handleBack_def
      onPassengerUpdate_def processBooking_start_def processBooking_resume_def
      completeBooking_disabled_def split: list.splits sum.splits)

lemma run_snoc: "run offer s (es @ [e]) = dispatch offer (run offer s es) e"
  by (simp add: run_def)

lemma reachable_consistent: "consistent (run offer (initialState n) es)"
proof (induction es rule: rev_induct)
  case Nil
  show ?case by (simp add: run_def consistent_def initialState_def)
next
  case (snoc e es)
  then show ?case by (simp add: run_snoc dispatch_consistent)
qed

lemma payment_filled_facts:
  "currentStep payment_filled = Payment \<and> \<not> completeBooking_disabled payment_filled \<and>
   pending payment_filled = [] \<and> confirmation payment_filled = None \<and>
   processBooking_try no_itinerary one_run (bookingData payment_filled) = Inl TypeError"
  by code_simp

text \<open>
  C4. Take a state at the payment step from which the booking can be sent, with no call
  suspended. If the body of the \<open>try\<close> throws, then after the click and the timer the
  state is the state before the click with the failure message added to the alerts: no
  confirmation was stored, the step is still the payment step, and the booking data, the
  payment details and the special requests are what they were. (The awaited timer always
  resolves; what can throw is the read of the first segment, for an offer without one.
  The render reads that segment too, so this is a statement about \<open>processBooking\<close> on
  every offer of the declared type, not only on those a mounted component holds.)
\<close>

theorem failed_submission_keeps_state:
  assumes "currentStep s = Payment" and "\<not> completeBooking_disabled s" and "pending s = []"
    and "processBooking_try offer fx (bookingData s) = Inl err"
  shows "run offer s [CompleteBooking_click, Timeout_resolves fx] =
           s\<lparr>alerts := alerts s @ [''Booking failed. Please try again.'']\<rparr>"
  using assms
  by (simp add: run_def handleStepNavigation_def processBooking_start_def
      processBooking_resume_def completeBooking_disabled_def)

theorem failed_submission_keeps_state_witness:
  "currentStep payment_filled = Payment \<and>
   processBooking_try no_itinerary one_run (bookingData payment_filled) = Inl TypeError \<and>
   currentStep (run no_itinerary payment_filled [CompleteBooking_click, Timeout_resolves one_run])
     = Payment \<and>
   confirmation (run no_itinerary payment_filled [CompleteBooking_click, Timeout_resolves one_run])
     = None \<and>
   bookingData (run no_itinerary payment_filled [CompleteBooking_click, Timeout_resolves one_run])
     = bookingData payment_filled \<and>
   paymentDetails (run no_itinerary payment_filled [CompleteBooking_click, Timeout_resolves one_run])
     = paymentDetails payment_filled"
proof -
  have a: "currentStep payment_filled = Payment"
    and b: "\<not> completeBooking_disabled payment_filled"
    and c: "pending payment_filled = []"
    and d: "processBooking_try no_itinerary one_run (bookingData payment_filled) = Inl TypeError"
    and e: "confirmation payment_filled = None"
    using payment_filled_facts by simp_all
  from failed_submission_keeps_state [OF a b c d] a d e show ?thesis by simp
qed

text \<open>
  Whatever happened since the booking was sent, a failing run itself changes only the
  pending calls, the alerts and the processing flag.
\<close>

lemma failed_resume_frame:
  assumes "pending s = captured # others"
    and "processBooking_try offer fx captured = Inl err"
  shows "dispatch offer s (Timeout_resolves fx) =
           s\<lparr>pending := others, alerts := alerts s @ [''Booking failed. Please try again.''],
             isProcessing := False\<rparr>"
  using assms by (simp add: processBooking_resume_def)

section \<open>The booking reference\<close>

lemma toUpperCase_length: "length (toUpperCase s) = length s"
  by (simp add: toUpperCase_def)

lemma upper_of_lower:
  assumes "is_lower c"
  shows "is_upper (char_of (of_char c - (32::nat)))"
proof -
  from assms have b: "97 \<le> (of_char c :: nat)" "(of_char c :: nat) \<le> 122"
    by (simp_all add: is_lower_def)
  then have m: "(of_char c - 32) mod 256 = (of_char c :: nat) - 32" by simp
  from b have "65 \<le> (of_char c :: nat) - 32 \<and> (of_char c :: nat) - 32 \<le> 90" by arith
  with m show ?thesis by (simp add: is_upper_def)
qed

lemma toUpperCase_alnum: "list_all base36 s \<Longrightarrow> list_all upper_alnum (toUpperCase s)"
  by (induction s) (auto simp add: toUpperCase_def base36_def upper_alnum_def upper_of_lower)

text \<open>
  C8, as amended. When \<open>Math.random().toString(36)\<close> prints eight or more digits of base 36
  after its first two characters, the booking reference of a confirmation is \<open>AD\<close> followed
  by a token of exactly eight upper-case letters and digits, the first eight of those
  digits in upper case: ten characters in all.
\<close>

theorem booking_reference_shape:
  assumes "processBooking_try offer fx bd = Inr c"
    and "list_all base36 (drop 2 (random1 fx))"
    and "10 \<le> length (random1 fx)"
  shows "bookingReference c = ''AD'' @ toUpperCase (take 8 (drop 2 (random1 fx))) \<and>
         length (toUpperCase (take 8 (drop 2 (random1 fx)))) = 8 \<and>
         length (bookingReference c) = 10 \<and>
         list_all upper_alnum (toUpperCase (take 8 (drop 2 (random1 fx))))"
proof -
  from assms(1) have "bookingReference c = ''AD'' @ toUpperCase (substr 2 8 (random1 fx))"
    by (auto simp add: processBooking_try_def split: list.splits)
  then have r: "bookingReference c = ''AD'' @ toUpperCase (take 8 (drop 2 (random1 fx)))"
    by (simp add: substr_def)
  from assms(3) have n: "length (toUpperCase (take 8 (drop 2 (random1 fx)))) = 8"
    by (simp add: toUpperCase_length)
  have "list_all base36 (take 8 (drop 2 (random1 fx)))"
    using assms(2) by (auto simp add: list_all_iff dest: in_set_takeD)
  then have "list_all upper_alnum (toUpperCase (take 8 (drop 2 (random1 fx))))"
    by (rule toUpperCase_alnum)
  with r n show ?thesis by simp
qed

theorem booking_reference_shape_witness:
  "list_all base36 (drop 2 (random1 one_run)) \<and> 10 \<le> length (random1 one_run) \<and>
   bookingReference (projr (processBooking_try aa123 one_run (bookingData payment_filled))) =
     ''AD'' @ toUpperCase (take 8 (drop 2 (random1 one_run))) \<and>
   length (bookingReference (projr (processBooking_try aa123 one_run (bookingData payment_filled))))
     = 10 \<and>
   list_all upper_alnum (toUpperCase (take 8 (drop 2 (random1 one_run))))"
proof -
  have "\<not> isl (processBooking_try aa123 one_run (bookingData payment_filled))"
    by code_simp
  then have a: "processBooking_try aa123 one_run (bookingData payment_filled) =
      Inr (projr (processBooking_try aa123 one_run (bookingData payment_filled)))"
    by (cases "processBooking_try aa123 one_run (bookingData payment_filled)") simp_all
  have b: "list_all base36 (drop 2 (random1 one_run))"
    by code_simp
  have c: "10 \<le> length (random1 one_run)"
    by (simp add: one_run_def)
  from booking_reference_shape [OF a b c] b c show ?thesis by simp
qed

text \<open>
  The reference made from the random string \<open>0.4fzyo82mvyr\<close> is \<open>AD4FZYO82M\<close>: ten characters,
  not eight.
\<close>

theorem booking_reference_counterexample:
  "\<not> isl (processBooking_try aa123 one_run (bookingData payment_filled)) \<and>
   bookingReference (projr (processBooking_try aa123 one_run (bookingData payment_filled))) =
     ''AD4FZYO82M'' \<and>
   length (bookingReference (projr (processBooking_try aa123 one_run (bookingData payment_filled))))
     = 10"
  by code_simp

section \<open>The step from the passenger details to the payment\<close>

lemma details_filled_facts:
  "currentStep details_filled = PassengerDetails \<and>
   list_all (\<lambda>p. has_non_space (firstName p) \<and> has_non_space (lastName p) \<and>
                   dateOfBirth p \<noteq> [] \<and> title p \<noteq> [])
     (passengers (bookingData details_filled)) \<and>
   contact_email (contactInfo (bookingData details_filled)) \<noteq> [] \<and>
   contact_phone (contactInfo (bookingData details_filled)) \<noteq> []"
  by code_simp

text \<open>
  C1, as amended. At the passenger step a click on the button to the payment step, and a
  call of \<open>handleStepNavigation\<close> with \<open>payment\<close>, move the step to the payment step exactly
  when every passenger has a first and a last name that hold a character other than white
  space, a date of birth and a title that are not empty, and the contact email and phone
  are not empty; otherwise the step stays the passenger step. The validator
  \<open>airlinesValidators.passenger\<close> is not consulted.
\<close>

theorem passenger_step_guard:
  assumes "currentStep s = PassengerDetails"
  shows "currentStep (dispatch offer s ContinueToPayment_click) =
           (if list_all (\<lambda>p. has_non_space (firstName p) \<and> has_non_space (lastName p) \<and>
                              dateOfBirth p \<noteq> [] \<and> title p \<noteq> [])
                 (passengers (bookingData s)) \<and>
               contact_email (contactInfo (bookingData s)) \<noteq> [] \<and>
               contact_phone (contactInfo (bookingData s)) \<noteq> []
            then Payment else PassengerDetails) \<and>
         currentStep (handleStepNavigation Payment s) =
           currentStep (dispatch offer s ContinueToPayment_click)"
  using assms
  by (simp add: handleStepNavigation_def continueToPayment_disabled_def
      validatePassengerDetails_def trim_truthy) (auto simp add: truthy_def)

theorem passenger_step_guard_witness:
  "currentStep details_filled = PassengerDetails \<and>
   currentStep (dispatch aa123 details_filled ContinueToPayment_click) = Payment \<and>
   currentStep (handleStepNavigation Payment details_filled) = Payment"
proof -
  have h: "currentStep details_filled = PassengerDetails"
    using details_filled_facts by simp
  from passenger_step_guard [OF h, of aa123] details_filled_facts show ?thesis by simp
qed

text \<open>
  With the email \<open>not-an-email\<close> the passenger validator reports an error, so the guard of
  the specification fails; the code moves to the payment step all the same.
\<close>

theorem passenger_step_guard_counterexample:
  "currentStep bad_email = PassengerDetails \<and>
   \<not> claimed_passenger_guard west_of_utc (bookingData bad_email) \<and>
   currentStep (dispatch aa123 bad_email ContinueToPayment_click) = Payment \<and>
   currentStep (handleStepNavigation Payment bad_email) = Payment"
  by code_simp

section \<open>The order of the steps\<close>

text \<open>
  What the controls do to the step: no click and no form update moves it by more than
  one position; it moves forward only by the first button, or by the second with a passing
  guard; the back button moves it to the step before.
\<close>

lemma control_moves_at_most_one_step:
  assumes "\<And>fx. e \<noteq> Timeout_resolves fx"
  shows "position (currentStep (dispatch offer s e)) \<le> position (currentStep s) + 1 \<and>
         position (currentStep s) \<le> position (currentStep (dispatch offer s e)) + 1"
  using assms
  by (cases e; cases "currentStep s")
    (auto simp add: handleStepNavigation_def handleBack_def onPassengerUpdate_def
      processBooking_start_def)

lemma forward_needs_passing_guard:
  assumes "\<And>fx. e \<noteq> Timeout_resolves fx"
    and "position (currentStep s) < position (currentStep (dispatch offer s e))"
  shows "(e = ContinueToPassengerDetails_click \<and> currentStep s = FlightSelected \<and>
          currentStep (dispatch offer s e) = PassengerDetails) \<or>
         (e = ContinueToPayment_click \<and> currentStep s = PassengerDetails \<and>
          validatePassengerDetails (bookingData s) \<and>
          currentStep (dispatch offer s e) = Payment)"
  using assms
  by (cases e; cases "currentStep s")
    (auto simp add: handleStepNavigation_def handleBack_def onPassengerUpdate_def
      processBooking_start_def continueToPayment_disabled_def split: if_splits)

lemma back_moves_to_predecessor:
  assumes "currentStep s = PassengerDetails \<or> currentStep s = Payment"
  shows "position (currentStep (dispatch offer s Back_click)) + 1 = position (currentStep s)"
  using assms by (auto simp add: handleBack_def)

text \<open>
  The run that resumes after the timer stores the confirmation and sets the step to the
  confirmation step without reading the current step.
\<close>

lemma completion_sets_confirmation:
  assumes "pending s = captured # others"
    and "processBooking_try offer fx captured = Inr c"
  shows "currentStep (dispatch offer s (Timeout_resolves fx)) = Confirmation \<and>
         confirmation (dispatch offer s (Timeout_resolves fx)) = Some c"
  using assms by (simp add: processBooking_resume_def)

text \<open>
  C5 fails on the code. The back button stays enabled while a booking is processed. In the
  state reached by sending the booking and pressing back twice, the step is the first
  step; when the timer resolves the step becomes the confirmation step, three positions
  further, by an event that is not an advance.
\<close>

theorem completion_after_back_skips_steps:
  "currentStep walked_back = FlightSelected \<and>
   currentStep (dispatch aa123 walked_back (Timeout_resolves one_run)) = Confirmation"
  by code_simp

section \<open>Dates and flight numbers\<close>

text \<open>
  \<open>futureDate\<close> accepts a string exactly when \<open>date\<close> accepts it and the time it parses to
  is not before the start of the local day.
\<close>

lemma futureDate_valid_iff:
  "isValid (futureDate pf v) \<longleftrightarrow>
     isValid (date pf v) \<and> (\<exists>t. Date_parse pf v = Some t \<and> setHours0 pf (now pf) \<le> t)"
  by (auto simp add: futureDate_def Let_def split: option.splits)

text \<open>
  A date-only string parses to midnight UTC, the start of the local day is midnight local
  time: a string that denotes the local day of the clock is accepted exactly when local
  time is not behind UTC.
\<close>

lemma today_accepted_iff:
  assumes "isValid (date pf v)"
    and "Date_parse pf v = Some (((now pf + tzOffset pf * 60000) div msPerDay) * msPerDay)"
  shows "isValid (futureDate pf v) \<longleftrightarrow> 0 \<le> tzOffset pf"
  using assms by (simp add: futureDate_valid_iff setHours0_def)

text \<open>
  C6 fails on the code. Five hours behind UTC, at local noon of 2025-06-15, the local date
  is 2025-06-15, the string \<open>2025-06-15\<close> passes \<open>date\<close>, and \<open>futureDate\<close> rejects it.
\<close>

theorem futureDate_rejects_today_west_of_utc:
  "local_date west_of_utc (now west_of_utc) = (2025, 6, 15) \<and>
   isValid (date west_of_utc ''2025-06-15'') \<and>
   futureDate west_of_utc ''2025-06-15'' =
     \<lparr>isValid = False, errors = [''Please select a future date'']\<rparr>"
  by code_simp

text \<open>The pattern of the code in plain terms: two upper-case letters, then one to four digits.\<close>

lemma flightNumber_pattern_iff:
  "regexp_test flightNumber_pattern s \<longleftrightarrow>
     (\<exists>letters digits. s = letters @ digits \<and> length letters = 2 \<and> list_all is_upper letters \<and>
        1 \<le> length digits \<and> length digits \<le> 4 \<and> list_all is_digit digits)"
proof
  assume "regexp_test flightNumber_pattern s"
  then obtain m where m: "list_all is_upper (take 2 s)" "2 \<le> length s" "1 \<le> m" "m \<le> 4"
      "m \<le> length s - 2" "list_all is_digit (take m (drop 2 s))" "length s \<le> m + 2"
    by (auto simp add: flightNumber_pattern_def list_ex_iff)
  then have "s = take 2 s @ drop 2 s \<and> length (take 2 s) = 2 \<and> list_all is_upper (take 2 s) \<and>
      1 \<le> length (drop 2 s) \<and> length (drop 2 s) \<le> 4 \<and> list_all is_digit (drop 2 s)"
    by auto
  then show "\<exists>letters digits. s = letters @ digits \<and> length letters = 2 \<and>
      list_all is_upper letters \<and> 1 \<le> length digits \<and> length digits \<le> 4 \<and>
      list_all is_digit digits"
    by blast
next
  assume "\<exists>letters digits. s = letters @ digits \<and> length letters = 2 \<and>
      list_all is_upper letters \<and> 1 \<le> length digits \<and> length digits \<le> 4 \<and>
      list_all is_digit digits"
  then obtain letters digits where s: "s = letters @ digits" "length letters = 2"
      "list_all is_upper letters" "1 \<le> length digits" "length digits \<le> 4"
      "list_all is_digit digits"
    by blast
  then have "list_all is_upper (take 2 s) \<and> list_all is_digit (take (length digits) (drop 2 s)) \<and>
      drop (length digits) (drop 2 s) = []"
    by simp
  with s show "regexp_test flightNumber_pattern s"
    by (auto simp add: flightNumber_pattern_def list_ex_iff intro!: bexI [of _ "length digits"])
qed

lemma flight_number_error_iff:
  "flightNumber_message \<in> set (errors (flight pf data)) \<longleftrightarrow>
     \<not> regexp_test flightNumber_pattern (flightNumber data)"
  by (simp add: flight_def pattern_def range_def Let_def flightNumber_message_def
      price_message_def split: option.splits)

text \<open>
  C7, as amended. The flight validator reports the flight-number error exactly when the
  flight number is not two upper-case letters followed by one to four digits, and a record
  with that error is not valid. A three-letter airline code is rejected.
\<close>

theorem flight_number_rule:
  "(flightNumber_message \<in> set (errors (flight pf data)) \<longleftrightarrow>
     \<not> (\<exists>letters digits. flightNumber data = letters @ digits \<and> length letters = 2 \<and>
           list_all is_upper letters \<and> 1 \<le> length digits \<and> length digits \<le> 4 \<and>
           list_all is_digit digits)) \<and>
   (flightNumber_message \<in> set (errors (flight pf data)) \<longrightarrow> \<not> isValid (flight pf data))"
proof -
  have "flightNumber_message \<in> set (errors (flight pf data)) \<longrightarrow> \<not> isValid (flight pf data)"
    by (auto simp add: flight_def Let_def)
  then show ?thesis
    by (simp add: flight_number_error_iff flightNumber_pattern_iff)
qed

theorem flight_number_rule_witness:
  "flightNumber_message \<notin> set (errors (flight west_of_utc (aal123\<lparr>flightNumber := ''AA123''\<rparr>))) \<and>
   flightNumber_message \<in> set (errors (flight west_of_utc aal123)) \<and>
   \<not> isValid (flight west_of_utc aal123)"
proof -
  have "flightNumber (aal123\<lparr>flightNumber := ''AA123''\<rparr>) = ''AA'' @ ''123'' \<and>
      length ''AA'' = 2 \<and> list_all is_upper ''AA'' \<and> 1 \<le> length ''123'' \<and>
      length ''123'' \<le> 4 \<and> list_all is_digit ''123''"
    by (simp add: is_upper_def is_digit_def)
  then have a: "\<exists>letters digits.
      flightNumber (aal123\<lparr>flightNumber := ''AA123''\<rparr>) = letters @ digits \<and>
      length letters = 2 \<and> list_all is_upper letters \<and> 1 \<le> length digits \<and>
      length digits \<le> 4 \<and> list_all is_digit digits"
    by blast
  have b: "flightNumber_message \<in> set (errors (flight west_of_utc aal123))"
    by code_simp
  from flight_number_rule [of west_of_utc "aal123\<lparr>flightNumber := ''AA123''\<rparr>"] a
  have c: "flightNumber_message \<notin>
      set (errors (flight west_of_utc (aal123\<lparr>flightNumber := ''AA123''\<rparr>)))"
    by blast
  from flight_number_rule [of west_of_utc aal123] b
  have "\<not> isValid (flight west_of_utc aal123)"
    by blast
  with b c show ?thesis by blast
qed

text \<open>
  \<open>AAL123\<close> matches the pattern of the specification, and the validator reports the
  flight-number error for it, and nothing else.
\<close>

theorem flight_number_counterexample:
  "regexp_test claimed_flightNumber_pattern (flightNumber aal123) \<and>
   errors (flight west_of_utc aal123) = [flightNumber_message] \<and>
   \<not> isValid (flight west_of_utc aal123)"
  by code_simp

end
